theory Spec2Isabelle
  imports Main "HOL-Library.Word" "HOL-Library.Multiset"
begin

unbundle bit_operations_syntax

section \<open>Kinds\<close>

text \<open>
  The enumerators of \<^verbatim>\<open>Node::NodeType\<close> that \<^verbatim>\<open>Edge.cpp\<close> names. The enumeration
  itself is declared in \<^verbatim>\<open>Node.h\<close>; only the names are needed here.
\<close>

datatype NodeType =
    NODE_UNDEFINED
  | NODE_UNDEFINED_FUNCTION
  | NODE_UNDEFINED_VARIABLE
  | NODE_UNDEFINED_TYPE
  | NODE_STRUCT
  | NODE_CLASS
  | NODE_ENUM
  | NODE_TYPEDEF
  | NODE_NAMESPACE
  | NODE_GLOBAL_VARIABLE
  | NODE_FIELD
  | NODE_FUNCTION
  | NODE_METHOD
  | NODE_TEMPLATE_PARAMETER_TYPE

text \<open>\<^verbatim>\<open>Node::NodeTypeMask\<close>: an integer whose bits are node kinds.\<close>

type_synonym NodeTypeMask = "32 word"

text \<open>
  What \<^verbatim>\<open>Node.h\<close> and \<^verbatim>\<open>Node.cpp\<close> fix and \<^verbatim>\<open>Edge.cpp\<close> only uses: the integer value of
  each \<^verbatim>\<open>NodeType\<close> enumerator, the text \<^verbatim>\<open>Node::getTypeString\<close> returns for it, and what
  \<^verbatim>\<open>Node::addEdge\<close> does with an edge that the node already holds: \<open>uniqueEdges\<close> says
  that it leaves the node as it is (the node keeps a set of edges, as the spec calls it),
  otherwise it stores the pointer once more. All three are parameters of the model.
\<close>

record NodeDecls =
  enumValue :: "NodeType \<Rightarrow> NodeTypeMask"
  typeString :: "NodeType \<Rightarrow> string"
  uniqueEdges :: bool

definition all_NodeTypes :: "NodeType list" where
  "all_NodeTypes =
     [NODE_UNDEFINED, NODE_UNDEFINED_FUNCTION, NODE_UNDEFINED_VARIABLE, NODE_UNDEFINED_TYPE,
      NODE_STRUCT, NODE_CLASS, NODE_ENUM, NODE_TYPEDEF, NODE_NAMESPACE, NODE_GLOBAL_VARIABLE,
      NODE_FIELD, NODE_FUNCTION, NODE_METHOD, NODE_TEMPLATE_PARAMETER_TYPE]"

text \<open>
  The enumerators are bit flags (spec, section 3): none is zero and no two share a bit.
\<close>

definition bit_flags :: "NodeDecls \<Rightarrow> bool" where
  "bit_flags D \<longleftrightarrow>
     list_all (\<lambda>k. enumValue D k \<noteq> 0) all_NodeTypes \<and>
     list_all (\<lambda>k. list_all (\<lambda>k'. k = k' \<or> enumValue D k AND enumValue D k' = 0) all_NodeTypes)
       all_NodeTypes"

text \<open>
  The values of an \<^verbatim>\<open>Edge::EdgeType\<close> variable. The fifteen enumerators are the case
  labels of the two \<^verbatim>\<open>switch\<close> statements of \<^verbatim>\<open>Edge.cpp\<close>. A C++ variable of
  enumeration type can also hold an integer that is none of the enumerators;
  \<open>EDGE_UNENUMERATED v\<close> is such a value \<open>v\<close>, for which no \<^verbatim>\<open>case\<close> label matches.
\<close>

datatype EdgeType =
    EDGE_MEMBER
  | EDGE_TYPE_OF
  | EDGE_RETURN_TYPE_OF
  | EDGE_PARAMETER_TYPE_OF
  | EDGE_TYPE_USAGE
  | EDGE_INHERITANCE
  | EDGE_OVERRIDE
  | EDGE_CALL
  | EDGE_USAGE
  | EDGE_TYPEDEF_OF
  | EDGE_TEMPLATE_PARAMETER_OF
  | EDGE_TEMPLATE_ARGUMENT_OF
  | EDGE_TEMPLATE_DEFAULT_ARGUMENT_OF
  | EDGE_TEMPLATE_SPECIALIZATION_OF
  | EDGE_AGGREGATION
  | EDGE_UNENUMERATED int

text \<open>\<^verbatim>\<open>Edge::getTypeString(EdgeType type)\<close>: the \<^verbatim>\<open>switch\<close>, then \<^verbatim>\<open>return ""\<close>.\<close>

definition getTypeString :: "EdgeType \<Rightarrow> string" where
  "getTypeString type =
     (case type of
        EDGE_MEMBER \<Rightarrow> ''child''
      | EDGE_TYPE_OF \<Rightarrow> ''type_use''
      | EDGE_RETURN_TYPE_OF \<Rightarrow> ''return_type''
      | EDGE_PARAMETER_TYPE_OF \<Rightarrow> ''parameter_type''
      | EDGE_TYPE_USAGE \<Rightarrow> ''type_usage''
      | EDGE_INHERITANCE \<Rightarrow> ''inheritance''
      | EDGE_OVERRIDE \<Rightarrow> ''override''
      | EDGE_CALL \<Rightarrow> ''call''
      | EDGE_USAGE \<Rightarrow> ''usage''
      | EDGE_TYPEDEF_OF \<Rightarrow> ''typedef''
      | EDGE_TEMPLATE_PARAMETER_OF \<Rightarrow> ''template parameter''
      | EDGE_TEMPLATE_ARGUMENT_OF \<Rightarrow> ''template argument''
      | EDGE_TEMPLATE_DEFAULT_ARGUMENT_OF \<Rightarrow> ''template default argument''
      | EDGE_TEMPLATE_SPECIALIZATION_OF \<Rightarrow> ''template specialization''
      | EDGE_AGGREGATION \<Rightarrow> ''aggregation''
      | EDGE_UNENUMERATED v \<Rightarrow> '''')"

section \<open>Tokens, nodes and edges\<close>

type_synonym Id = nat
type_synonym node_ref = nat
type_synonym edge_ref = nat

text \<open>
  Modelled from the spec: the two component classes \<^verbatim>\<open>TokenComponentAccess\<close> and
  \<^verbatim>\<open>TokenComponentAggregation\<close> (their headers are not part of the sources). Section 4.3:
  Access stores one value of a closed visibility enumeration (public, protected, private,
  section 2) and exposes its display label; Aggregation stores one non-negative count.
\<close>

datatype AccessType = ACCESS_PUBLIC | ACCESS_PROTECTED | ACCESS_PRIVATE

datatype TokenComponent =
    ComponentAccess AccessType
  | ComponentAggregation nat

definition getAccessString :: "AccessType \<Rightarrow> string" where
  "getAccessString a =
     (case a of ACCESS_PUBLIC \<Rightarrow> ''public'' | ACCESS_PROTECTED \<Rightarrow> ''protected''
      | ACCESS_PRIVATE \<Rightarrow> ''private'')"

text \<open>
  Modelled from the spec: the part of \<^verbatim>\<open>Node\<close> that \<^verbatim>\<open>Edge.cpp\<close> reads and writes
  (\<^verbatim>\<open>Node.h\<close> is not part of the sources): the id (\<^verbatim>\<open>getId\<close>), the immutable kind
  (\<^verbatim>\<open>isType\<close>, \<^verbatim>\<open>getTypeString\<close>), the display name (\<^verbatim>\<open>getName\<close>), the full qualified
  name (\<^verbatim>\<open>getFullName\<close>) and the incident edges (\<^verbatim>\<open>addEdge\<close>, \<^verbatim>\<open>removeEdge\<close>), each with
  the number of times the node holds it.
\<close>

record Node =
  node_id :: Id
  node_type :: NodeType
  node_name :: string
  node_fullName :: string
  node_edges :: "edge_ref multiset"

text \<open>
  An \<^verbatim>\<open>Edge\<close> object: the id and the components of its \<^verbatim>\<open>Token\<close> base, then the three
  members the constructors of \<^verbatim>\<open>Edge.cpp\<close> initialise. \<open>m_from\<close> and \<open>m_to\<close> are
  \<^verbatim>\<open>Node*\<close> pointers.
\<close>

record Edge =
  m_id :: Id
  m_components :: "TokenComponent list"
  m_type :: EdgeType
  m_from :: node_ref
  m_to :: node_ref

text \<open>
  Modelled from the spec: \<^verbatim>\<open>Node::isType(mask)\<close> (\<^verbatim>\<open>Node.cpp\<close> is not part of the
  sources). Section 4.1: whether the node's kind intersects the given category mask.
\<close>

definition Node_isType :: "NodeDecls \<Rightarrow> Node \<Rightarrow> NodeTypeMask \<Rightarrow> bool" where
  "Node_isType D n typeMask \<longleftrightarrow> enumValue D (node_type n) AND typeMask \<noteq> 0"

section \<open>The compatibility check\<close>

text \<open>
  The \<^verbatim>\<open>switch\<close> of \<^verbatim>\<open>Edge::checkType\<close> on the edge's kind and the two nodes its
  pointers refer to: \<open>True\<close> where the code reaches \<^verbatim>\<open>return true\<close>, \<open>False\<close> where
  it reaches \<^verbatim>\<open>break\<close> or no label matches.
\<close>

definition checkType_switch :: "NodeDecls \<Rightarrow> EdgeType \<Rightarrow> Node \<Rightarrow> Node \<Rightarrow> bool" where
  "checkType_switch D type nfrom nto =
     (let NODE = enumValue D;
          complexTypeMask = NODE NODE_UNDEFINED_TYPE OR NODE NODE_CLASS OR NODE NODE_STRUCT;
          typeMask = NODE NODE_UNDEFINED OR NODE NODE_ENUM OR NODE NODE_TYPEDEF OR complexTypeMask;
          variableMask = NODE NODE_UNDEFINED OR NODE NODE_UNDEFINED_VARIABLE
                           OR NODE NODE_GLOBAL_VARIABLE OR NODE NODE_FIELD;
          functionMask = NODE NODE_UNDEFINED_FUNCTION OR NODE NODE_FUNCTION OR NODE NODE_METHOD
      in case type of
        EDGE_MEMBER \<Rightarrow>
          if \<not> Node_isType D nfrom (typeMask OR NODE NODE_NAMESPACE) \<or>
             (\<not> Node_isType D nfrom (NODE NODE_UNDEFINED OR NODE NODE_NAMESPACE) \<and>
                Node_isType D nto (NODE NODE_NAMESPACE)) \<or>
             (Node_isType D nfrom (NODE NODE_ENUM) \<and> \<not> Node_isType D nto (NODE NODE_FIELD))
          then False else True
      | EDGE_TYPE_OF \<Rightarrow>
          if \<not> Node_isType D nfrom variableMask \<or> \<not> Node_isType D nto typeMask
          then False else True
      | EDGE_RETURN_TYPE_OF \<Rightarrow>
          if \<not> Node_isType D nfrom functionMask \<or> \<not> Node_isType D nto typeMask
          then False else True
      | EDGE_PARAMETER_TYPE_OF \<Rightarrow>
          if \<not> Node_isType D nfrom functionMask \<or> \<not> Node_isType D nto typeMask
          then False else True
      | EDGE_TYPE_USAGE \<Rightarrow>
          if \<not> Node_isType D nfrom functionMask \<or> \<not> Node_isType D nto typeMask
          then False else True
      | EDGE_INHERITANCE \<Rightarrow>
          if \<not> Node_isType D nfrom complexTypeMask \<or> \<not> Node_isType D nto complexTypeMask
          then False else True
      | EDGE_OVERRIDE \<Rightarrow>
          if \<not> Node_isType D nfrom (NODE NODE_UNDEFINED_FUNCTION OR NODE NODE_METHOD) \<or>
             \<not> Node_isType D nto (NODE NODE_UNDEFINED_FUNCTION OR NODE NODE_METHOD)
          then False else True
      | EDGE_CALL \<Rightarrow>
          if \<not> Node_isType D nfrom (variableMask OR functionMask) \<or>
             \<not> Node_isType D nto functionMask
          then False else True
      | EDGE_USAGE \<Rightarrow>
          if \<not> Node_isType D nfrom functionMask \<or> \<not> Node_isType D nto variableMask
          then False else True
      | EDGE_TYPEDEF_OF \<Rightarrow>
          if \<not> Node_isType D nfrom (NODE NODE_TYPEDEF) \<or> \<not> Node_isType D nto typeMask
          then False else True
      | EDGE_TEMPLATE_PARAMETER_OF \<Rightarrow>
          if \<not> Node_isType D nfrom (NODE NODE_TEMPLATE_PARAMETER_TYPE) \<or>
             \<not> Node_isType D nto (typeMask OR functionMask)
          then False else True
      | EDGE_TEMPLATE_ARGUMENT_OF \<Rightarrow>
          if \<not> Node_isType D nfrom typeMask \<or> \<not> Node_isType D nto typeMask
          then False else True
      | EDGE_TEMPLATE_DEFAULT_ARGUMENT_OF \<Rightarrow>
          if \<not> Node_isType D nfrom typeMask \<or> \<not> Node_isType D nto typeMask
          then False else True
      | EDGE_TEMPLATE_SPECIALIZATION_OF \<Rightarrow>
          if \<not> Node_isType D nfrom (typeMask OR functionMask) \<or>
             \<not> Node_isType D nto (typeMask OR functionMask)
          then False else True
      | EDGE_AGGREGATION \<Rightarrow>
          if \<not> Node_isType D nfrom (typeMask OR variableMask OR functionMask) \<or>
             \<not> Node_isType D nto (typeMask OR variableMask OR functionMask)
          then False else True
      | EDGE_UNENUMERATED v \<Rightarrow> False)"

section \<open>The store\<close>

text \<open>
  Nodes and edges are objects reached through pointers: an edge holds two \<^verbatim>\<open>Node*\<close>, a
  node holds the \<^verbatim>\<open>Edge*\<close> of its incident edges. The store maps each pointer to the
  object it refers to; a pointer outside the domain refers to no live object (null or
  dangling), and the C++ that dereferences it has no defined behaviour: the model returns
  \<open>None\<close> there.

  \<open>history\<close> records, in order, the calls \<^verbatim>\<open>Edge.cpp\<close> makes to its collaborators:
  \<^verbatim>\<open>Node::addEdge\<close>, \<^verbatim>\<open>Node::removeEdge\<close> and the logging macros.
\<close>

datatype call =
    Call_addEdge node_ref edge_ref
  | Call_removeEdge node_ref edge_ref
  | Call_LOG_ERROR string

record world =
  nodes :: "node_ref \<rightharpoonup> Node"
  edges :: "edge_ref \<rightharpoonup> Edge"
  history :: "call list"

text \<open>The calls made between two states, and the diagnostics among them.\<close>

definition calls_since :: "world \<Rightarrow> world \<Rightarrow> call list" where
  "calls_since s s' = drop (length (history s)) (history s')"

fun diagnostics :: "call list \<Rightarrow> string list" where
  "diagnostics [] = []"
| "diagnostics (Call_LOG_ERROR message # cs) = message # diagnostics cs"
| "diagnostics (c # cs) = diagnostics cs"

text \<open>
  The incident edges of the node a pointer refers to: with the number of times each is
  held, and as a set.
\<close>

definition incidence :: "world \<Rightarrow> node_ref \<Rightarrow> edge_ref multiset" where
  "incidence s r = (case nodes s r of None \<Rightarrow> {#} | Some n \<Rightarrow> node_edges n)"

definition incidentEdges :: "world \<Rightarrow> node_ref \<Rightarrow> edge_ref set" where
  "incidentEdges s r = set_mset (incidence s r)"

text \<open>
  Modelled from the spec: the logging macros \<^verbatim>\<open>LOG_ERROR\<close> and \<^verbatim>\<open>LOG_ERROR_STREAM\<close>
  (\<^verbatim>\<open>utility/logging/logging.h\<close> is not part of the sources). Section 6: a single
  reporting call taking a human-readable message.
\<close>

definition LOG_ERROR :: "string \<Rightarrow> world \<Rightarrow> world" where
  "LOG_ERROR message s = s\<lparr>history := history s @ [Call_LOG_ERROR message]\<rparr>"

text \<open>
  Modelled from the spec: \<^verbatim>\<open>Node::addEdge\<close> and \<^verbatim>\<open>Node::removeEdge\<close> (\<^verbatim>\<open>Node.cpp\<close> is
  not part of the sources). Section 4.1: they mutate the incidence set of the node.
  \<open>addEdge\<close> puts the edge in; for an edge the node already holds it does so only when
  the node does not keep its edges unique. \<open>removeEdge\<close> takes the edge out once, and
  does nothing for an edge the node does not hold; section 4.1 leaves it to Edge to pair
  each \<open>addEdge\<close> with one \<open>removeEdge\<close>.
\<close>

definition addEdge_to :: "NodeDecls \<Rightarrow> edge_ref \<Rightarrow> edge_ref multiset \<Rightarrow> edge_ref multiset" where
  "addEdge_to D e held = (if uniqueEdges D \<and> e \<in># held then held else add_mset e held)"

definition Node_addEdge :: "NodeDecls \<Rightarrow> node_ref \<Rightarrow> edge_ref \<Rightarrow> world \<Rightarrow> world option" where
  "Node_addEdge D r e s =
     (case nodes s r of
        None \<Rightarrow> None
      | Some n \<Rightarrow>
          Some (s\<lparr>nodes := (nodes s)(r \<mapsto> n\<lparr>node_edges := addEdge_to D e (node_edges n)\<rparr>),
                  history := history s @ [Call_addEdge r e]\<rparr>))"


text \<open>
  Modelled from the spec: \<^verbatim>\<open>Token::getComponent<T>\<close> and \<^verbatim>\<open>Token::addComponent\<close>
  (\<^verbatim>\<open>Token.h\<close> is not part of the sources). Section 2: a token has a small capability
  set of optional attached components. \<open>getComponent\<close> returns the attached component of
  the asked kind, or nothing (the null pointer); \<open>addComponent\<close> attaches one more.
\<close>

fun getComponentAccess :: "TokenComponent list \<Rightarrow> AccessType option" where
  "getComponentAccess [] = None"
| "getComponentAccess (ComponentAccess a # cs) = Some a"
| "getComponentAccess (ComponentAggregation n # cs) = getComponentAccess cs"

fun getComponentAggregation :: "TokenComponent list \<Rightarrow> nat option" where
  "getComponentAggregation [] = None"
| "getComponentAggregation (ComponentAggregation n # cs) = Some n"
| "getComponentAggregation (ComponentAccess a # cs) = getComponentAggregation cs"

definition addComponent :: "TokenComponent \<Rightarrow> Edge \<Rightarrow> Edge" where
  "addComponent component e = e\<lparr>m_components := m_components e @ [component]\<rparr>"

section \<open>Operations of Edge\<close>

text \<open>
  \<^verbatim>\<open>Edge::checkType\<close> on the edge at \<open>this\<close>: the result of the \<^verbatim>\<open>switch\<close>, and one
  \<^verbatim>\<open>LOG_ERROR_STREAM\<close> report where it is false. Both endpoints are dereferenced.
\<close>

definition checkType :: "NodeDecls \<Rightarrow> edge_ref \<Rightarrow> world \<Rightarrow> (bool \<times> world) option" where
  "checkType D this s =
     (case edges s this of
        None \<Rightarrow> None
      | Some e \<Rightarrow>
         (case nodes s (m_from e) of
            None \<Rightarrow> None
          | Some nfrom \<Rightarrow>
             (case nodes s (m_to e) of
                None \<Rightarrow> None
              | Some nto \<Rightarrow>
                  if checkType_switch D (m_type e) nfrom nto then Some (True, s)
                  else Some (False,
                    LOG_ERROR (''Edge '' @ getTypeString (m_type e)
                      @ '' can'' @ [CHR 0x27] @ ''t go from Node '' @ typeString D (node_type nfrom)
                      @ '' to Node '' @ typeString D (node_type nto)) s))))"

text \<open>
  Modelled from the spec: the default constructor of the \<^verbatim>\<open>Token\<close> base, which
  \<^verbatim>\<open>Edge::Edge(EdgeType type, Node* from, Node* to)\<close> runs first (\<^verbatim>\<open>Token.cpp\<close> is not part
  of the sources). Sections 2 and 3: it gives the token its id, here the parameter
  \<open>tid\<close>, and no component, as components are attached after construction.

  The rest is the constructor of \<^verbatim>\<open>Edge.cpp\<close>; \<open>this\<close> is the address of the new object.
\<close>

definition Edge_new ::
  "NodeDecls \<Rightarrow> edge_ref \<Rightarrow> Id \<Rightarrow> EdgeType \<Rightarrow> node_ref \<Rightarrow> node_ref \<Rightarrow> world \<Rightarrow> world option" where
  "Edge_new D this tid type nfrom nto s =
     (let s0 = s\<lparr>edges := (edges s)(this \<mapsto>
                  \<lparr>m_id = tid, m_components = [], m_type = type, m_from = nfrom, m_to = nto\<rparr>)\<rparr>
      in case Node_addEdge D nfrom this s0 of
           None \<Rightarrow> None
         | Some s1 \<Rightarrow>
            (case Node_addEdge D nto this s1 of
               None \<Rightarrow> None
             | Some s2 \<Rightarrow> map_option snd (checkType D this s2)))"

text \<open>
  Modelled from the spec: the copy constructor of the \<^verbatim>\<open>Token\<close> base, which
  \<^verbatim>\<open>Edge::Edge(const Edge& other, Node* from, Node* to)\<close> runs first (\<^verbatim>\<open>Token.cpp\<close> is
  not part of the sources). Section 4.2: the clone has the components of the source edge;
  it has the id of the source edge too, as the copied nodes of that section carry the ids
  of their originals.

  The rest is the constructor of \<^verbatim>\<open>Edge.cpp\<close>. The condition of its \<^verbatim>\<open>if\<close> is evaluated
  from left to right and stops at the first true operand, so the endpoints of \<open>other\<close>
  are dereferenced only when both pointer comparisons are false.
\<close>

definition Edge_copy_condition :: "Edge \<Rightarrow> node_ref \<Rightarrow> node_ref \<Rightarrow> world \<Rightarrow> bool option" where
  "Edge_copy_condition other nfrom nto s =
     (if nfrom = m_from other \<or> nto = m_to other then Some True
      else case (nodes s nfrom, nodes s (m_from other)) of
             (Some f, Some f') \<Rightarrow>
               if node_id f \<noteq> node_id f' then Some True
               else (case (nodes s nto, nodes s (m_to other)) of
                       (Some t, Some t') \<Rightarrow> Some (node_id t \<noteq> node_id t')
                     | _ \<Rightarrow> None)
           | _ \<Rightarrow> None)"

definition Edge_copy ::
  "NodeDecls \<Rightarrow> edge_ref \<Rightarrow> Edge \<Rightarrow> node_ref \<Rightarrow> node_ref \<Rightarrow> world \<Rightarrow> world option" where
  "Edge_copy D this other nfrom nto s =
     (let s0 = s\<lparr>edges := (edges s)(this \<mapsto>
                  \<lparr>m_id = m_id other, m_components = m_components other,
                   m_type = m_type other, m_from = nfrom, m_to = nto\<rparr>)\<rparr>
      in case Node_addEdge D nfrom this s0 of
           None \<Rightarrow> None
         | Some s1 \<Rightarrow>
            (case Node_addEdge D nto this s1 of
               None \<Rightarrow> None
             | Some s2 \<Rightarrow>
                (case Edge_copy_condition other nfrom nto s2 of
                   None \<Rightarrow> None
                 | Some c \<Rightarrow>
                     map_option snd (checkType D this
                       (if c then LOG_ERROR ''Nodes are not plain copies.'' s2 else s2)))))"


text \<open>
  The accessors \<^verbatim>\<open>getType\<close>, \<^verbatim>\<open>getFrom\<close>, \<^verbatim>\<open>getTo\<close>, \<^verbatim>\<open>isNode\<close> and \<^verbatim>\<open>isEdge\<close>:
  \<^verbatim>\<open>const\<close> member functions that read the edge and return a value.
  (\<^verbatim>\<open>Edge::isType(mask)\<close> tests the integer value of the kind against a mask of edge
  kinds; those values are declared in \<^verbatim>\<open>Edge.h\<close> and the function is left out.)
\<close>

definition getType :: "Edge \<Rightarrow> EdgeType" where
  "getType e = m_type e"

definition getFrom :: "Edge \<Rightarrow> node_ref" where
  "getFrom e = m_from e"

definition getTo :: "Edge \<Rightarrow> node_ref" where
  "getTo e = m_to e"

definition isNode :: "Edge \<Rightarrow> bool" where
  "isNode e = False"

definition isEdge :: "Edge \<Rightarrow> bool" where
  "isEdge e = True"

text \<open>\<^verbatim>\<open>Edge::addComponentAggregation\<close> and \<^verbatim>\<open>Edge::addComponentAccess\<close>.\<close>

definition addComponentAggregation :: "edge_ref \<Rightarrow> nat \<Rightarrow> world \<Rightarrow> world option" where
  "addComponentAggregation this component s =
     (case edges s this of
        None \<Rightarrow> None
      | Some e \<Rightarrow>
          if getComponentAggregation (m_components e) \<noteq> None
          then Some (LOG_ERROR ''TokenComponentAggregation has been set before!'' s)
          else if m_type e \<noteq> EDGE_AGGREGATION
          then Some (LOG_ERROR (''TokenComponentAggregation can'' @ [CHR 0x27]
                       @ ''t be set on edge of type: '' @ getTypeString (m_type e)) s)
          else Some (s\<lparr>edges := (edges s)(this \<mapsto>
                         addComponent (ComponentAggregation component) e)\<rparr>))"

definition addComponentAccess :: "edge_ref \<Rightarrow> AccessType \<Rightarrow> world \<Rightarrow> world option" where
  "addComponentAccess this component s =
     (case edges s this of
        None \<Rightarrow> None
      | Some e \<Rightarrow>
          if getComponentAccess (m_components e) \<noteq> None
          then Some (LOG_ERROR ''TokenComponentAccess has been set before!'' s)
          else if m_type e \<noteq> EDGE_MEMBER \<and> m_type e \<noteq> EDGE_INHERITANCE
          then Some (LOG_ERROR (''TokenComponentAccess can'' @ [CHR 0x27]
                       @ ''t be set on edge of type: '' @ getTypeString (m_type e)) s)
          else Some (s\<lparr>edges := (edges s)(this \<mapsto>
                         addComponent (ComponentAccess component) e)\<rparr>))"

section \<open>Rendering\<close>

text \<open>
  What \<^verbatim>\<open>operator<<\<close> writes for an unsigned integer (the id, the aggregation count):
  its decimal digits.
\<close>

function decimal :: "nat \<Rightarrow> string" where
  "decimal n =
     (if n < 10 then [char_of (48 + n)]
      else decimal (n div 10) @ [char_of (48 + n mod 10)])"
  by pat_completeness auto
termination
  by (relation "measure (\<lambda>n. n)") auto

declare decimal.simps [simp del]

text \<open>\<^verbatim>\<open>Edge::getName\<close>: both endpoints are dereferenced.\<close>

definition getName :: "world \<Rightarrow> Edge \<Rightarrow> string option" where
  "getName s e =
     (case nodes s (m_from e) of
        None \<Rightarrow> None
      | Some nfrom \<Rightarrow>
         (case nodes s (m_to e) of
            None \<Rightarrow> None
          | Some nto \<Rightarrow>
              Some (getTypeString (m_type e) @ '':'' @ node_fullName nfrom
                      @ ''->'' @ node_fullName nto)))"

text \<open>
  \<^verbatim>\<open>Edge::getAsString\<close>: the stream after the first statement, then after each of the two
  conditional statements.
\<close>

definition getAsString :: "world \<Rightarrow> Edge \<Rightarrow> string option" where
  "getAsString s e =
     (case nodes s (m_from e) of
        None \<Rightarrow> None
      | Some nfrom \<Rightarrow>
         (case nodes s (m_to e) of
            None \<Rightarrow> None
          | Some nto \<Rightarrow>
             (let str0 = ''['' @ decimal (m_id e) @ ''] '' @ getTypeString (m_type e)
                          @ '': '' @ [CHR 0x22] @ node_name nfrom @ [CHR 0x22]
                          @ '' -> '' @ [CHR 0x22] @ node_name nto @ [CHR 0x22];
                  str1 = (case getComponentAccess (m_components e) of
                            Some access \<Rightarrow> str0 @ '' '' @ getAccessString access
                          | None \<Rightarrow> str0);
                  str2 = (case getComponentAggregation (m_components e) of
                            Some aggregation \<Rightarrow> str1 @ '' '' @ decimal aggregation
                          | None \<Rightarrow> str1)
              in Some str2)))"

section \<open>Attaching components to a new edge\<close>

text \<open>
  A client that constructs an edge and then attaches components to it only through
  \<open>addComponentAccess\<close> and \<open>addComponentAggregation\<close>, in any order and number.
\<close>

datatype attachment = AttachAccess AccessType | AttachAggregation nat

fun attach :: "edge_ref \<Rightarrow> attachment \<Rightarrow> world \<Rightarrow> world option" where
  "attach this (AttachAccess a) s = addComponentAccess this a s"
| "attach this (AttachAggregation n) s = addComponentAggregation this n s"

fun attach_all :: "edge_ref \<Rightarrow> attachment list \<Rightarrow> world \<Rightarrow> world option" where
  "attach_all this [] s = Some s"
| "attach_all this (a # as) s =
     (case attach this a s of None \<Rightarrow> None | Some s' \<Rightarrow> attach_all this as s')"

section \<open>The schema of the specification\<close>

text \<open>The composite categories of the spec, section 3, as sets of node kinds.\<close>

definition complexType :: "NodeType set" where
  "complexType = {NODE_UNDEFINED_TYPE, NODE_CLASS, NODE_STRUCT}"

definition typeLike :: "NodeType set" where
  "typeLike = {NODE_UNDEFINED, NODE_ENUM, NODE_TYPEDEF} \<union> complexType"

definition variableLike :: "NodeType set" where
  "variableLike = {NODE_UNDEFINED, NODE_UNDEFINED_VARIABLE, NODE_GLOBAL_VARIABLE, NODE_FIELD}"

definition functionLike :: "NodeType set" where
  "functionLike = {NODE_UNDEFINED_FUNCTION, NODE_FUNCTION, NODE_METHOD}"

text \<open>
  The table of the spec, section 4.2, row by row as it is written: the kinds \<open>f\<close> of the
  from node and \<open>t\<close> of the to node that an edge kind admits.
\<close>

definition schema_table :: "EdgeType \<Rightarrow> NodeType \<Rightarrow> NodeType \<Rightarrow> bool" where
  "schema_table type f t =
     (case type of
        EDGE_MEMBER \<Rightarrow>
          f \<in> typeLike \<union> {NODE_NAMESPACE} \<and> t \<in> typeLike \<union> {NODE_NAMESPACE} \<and>
          \<not> (t = NODE_NAMESPACE \<and> f \<notin> {NODE_UNDEFINED, NODE_NAMESPACE}) \<and>
          \<not> (f = NODE_ENUM \<and> t \<noteq> NODE_FIELD)
      | EDGE_TYPE_OF \<Rightarrow> f \<in> variableLike \<and> t \<in> typeLike
      | EDGE_RETURN_TYPE_OF \<Rightarrow> f \<in> functionLike \<and> t \<in> typeLike
      | EDGE_PARAMETER_TYPE_OF \<Rightarrow> f \<in> functionLike \<and> t \<in> typeLike
      | EDGE_TYPE_USAGE \<Rightarrow> f \<in> functionLike \<and> t \<in> typeLike
      | EDGE_INHERITANCE \<Rightarrow> f \<in> complexType \<and> t \<in> complexType
      | EDGE_OVERRIDE \<Rightarrow>
          f \<in> {NODE_UNDEFINED_FUNCTION, NODE_METHOD} \<and>
          t \<in> {NODE_UNDEFINED_FUNCTION, NODE_METHOD}
      | EDGE_CALL \<Rightarrow> f \<in> variableLike \<union> functionLike \<and> t \<in> functionLike
      | EDGE_USAGE \<Rightarrow> f \<in> functionLike \<and> t \<in> variableLike
      | EDGE_TYPEDEF_OF \<Rightarrow> f = NODE_TYPEDEF \<and> t \<in> typeLike
      | EDGE_TEMPLATE_PARAMETER_OF \<Rightarrow>
          f = NODE_TEMPLATE_PARAMETER_TYPE \<and> t \<in> typeLike \<union> functionLike
      | EDGE_TEMPLATE_ARGUMENT_OF \<Rightarrow> f \<in> typeLike \<and> t \<in> typeLike
      | EDGE_TEMPLATE_DEFAULT_ARGUMENT_OF \<Rightarrow> f \<in> typeLike \<and> t \<in> typeLike
      | EDGE_TEMPLATE_SPECIALIZATION_OF \<Rightarrow>
          f \<in> typeLike \<union> functionLike \<and> t \<in> typeLike \<union> functionLike
      | EDGE_AGGREGATION \<Rightarrow>
          f \<in> typeLike \<union> variableLike \<union> functionLike \<and>
          t \<in> typeLike \<union> variableLike \<union> functionLike
      | EDGE_UNENUMERATED v \<Rightarrow> False)"

text \<open>
  The same table with no requirement on the kind of the to node in the Member row beyond
  the two rejections of its last column.
\<close>

definition schema_table_member_open :: "EdgeType \<Rightarrow> NodeType \<Rightarrow> NodeType \<Rightarrow> bool" where
  "schema_table_member_open type f t =
     (if type = EDGE_MEMBER
      then f \<in> typeLike \<union> {NODE_NAMESPACE} \<and>
           \<not> (t = NODE_NAMESPACE \<and> f \<notin> {NODE_UNDEFINED, NODE_NAMESPACE}) \<and>
           \<not> (f = NODE_ENUM \<and> t \<noteq> NODE_FIELD)
      else schema_table type f t)"

section \<open>Registration, as a map of nodes\<close>

text \<open>
  The nodes of a store after \<open>addEdge\<close>, or \<open>removeEdge\<close>, of the edge \<open>this\<close> on the
  node at \<open>nfrom\<close> and then on the node at \<open>nto\<close>, which may be the same node; every
  other node, and every other field, is as before.
\<close>

definition with_edge ::
  "NodeDecls \<Rightarrow> edge_ref \<Rightarrow> node_ref \<Rightarrow> node_ref \<Rightarrow> (node_ref \<rightharpoonup> Node) \<Rightarrow> (node_ref \<rightharpoonup> Node)" where
  "with_edge D this nfrom nto ns =
     (\<lambda>r. map_option
        (\<lambda>n. let held1 = (if r = nfrom then addEdge_to D this (node_edges n) else node_edges n);
                 held2 = (if r = nto then addEdge_to D this held1 else held1)
             in n\<lparr>node_edges := held2\<rparr>)
        (ns r))"


text \<open>
  The report of the compatibility check, and the condition under which the cloning
  constructor reports that the nodes are not plain copies, on the four nodes involved.
\<close>

definition checkType_report :: "NodeDecls \<Rightarrow> EdgeType \<Rightarrow> Node \<Rightarrow> Node \<Rightarrow> string" where
  "checkType_report D type nfrom nto =
     ''Edge '' @ getTypeString type @ '' can'' @ [CHR 0x27] @ ''t go from Node ''
       @ typeString D (node_type nfrom) @ '' to Node '' @ typeString D (node_type nto)"

definition not_plain_copies :: "Edge \<Rightarrow> node_ref \<Rightarrow> node_ref \<Rightarrow> Node \<Rightarrow> Node \<Rightarrow> Node \<Rightarrow> Node \<Rightarrow> bool" where
  "not_plain_copies other nfrom nto f t f' t' \<longleftrightarrow>
     nfrom = m_from other \<or> nto = m_to other \<or> node_id f \<noteq> node_id f' \<or> node_id t \<noteq> node_id t'"

section \<open>A small graph\<close>

text \<open>
  One assignment of bit flags to the node kinds: the i-th kind gets bit i. The labels are
  the enumerators' names in lower case, and a node keeps its edges unique.
\<close>

fun NodeType_position :: "NodeType \<Rightarrow> nat" where
  "NodeType_position NODE_UNDEFINED = 0"
| "NodeType_position NODE_UNDEFINED_FUNCTION = 1"
| "NodeType_position NODE_UNDEFINED_VARIABLE = 2"
| "NodeType_position NODE_UNDEFINED_TYPE = 3"
| "NodeType_position NODE_STRUCT = 4"
| "NodeType_position NODE_CLASS = 5"
| "NodeType_position NODE_ENUM = 6"
| "NodeType_position NODE_TYPEDEF = 7"
| "NodeType_position NODE_NAMESPACE = 8"
| "NodeType_position NODE_GLOBAL_VARIABLE = 9"
| "NodeType_position NODE_FIELD = 10"
| "NodeType_position NODE_FUNCTION = 11"
| "NodeType_position NODE_METHOD = 12"
| "NodeType_position NODE_TEMPLATE_PARAMETER_TYPE = 13"

fun NodeType_name :: "NodeType \<Rightarrow> string" where
  "NodeType_name NODE_UNDEFINED = ''undefined''"
| "NodeType_name NODE_UNDEFINED_FUNCTION = ''undefined_function''"
| "NodeType_name NODE_UNDEFINED_VARIABLE = ''undefined_variable''"
| "NodeType_name NODE_UNDEFINED_TYPE = ''undefined_type''"
| "NodeType_name NODE_STRUCT = ''struct''"
| "NodeType_name NODE_CLASS = ''class''"
| "NodeType_name NODE_ENUM = ''enum''"
| "NodeType_name NODE_TYPEDEF = ''typedef''"
| "NodeType_name NODE_NAMESPACE = ''namespace''"
| "NodeType_name NODE_GLOBAL_VARIABLE = ''global_variable''"
| "NodeType_name NODE_FIELD = ''field''"
| "NodeType_name NODE_FUNCTION = ''function''"
| "NodeType_name NODE_METHOD = ''method''"
| "NodeType_name NODE_TEMPLATE_PARAMETER_TYPE = ''template_parameter_type''"

definition flags_in_order :: NodeDecls where
  "flags_in_order =
     \<lparr>enumValue = (\<lambda>k. push_bit (NodeType_position k) 1), typeString = NodeType_name,
      uniqueEdges = True\<rparr>"

text \<open>
  A class \<open>A\<close> with a method \<open>A::b\<close> at the addresses 10 and 20, and a copy of each, with
  the same id, at 11 and 21. \<open>two_graphs\<close> has no edge yet; \<open>with_member\<close> is
  \<open>two_graphs\<close> after the Member edge from 10 to 20 has been constructed at address 100.
\<close>

definition class_A :: Node where
  "class_A = \<lparr>node_id = 1, node_type = NODE_CLASS, node_name = ''A'', node_fullName = ''A'',
              node_edges = {#}\<rparr>"

definition method_b :: Node where
  "method_b = \<lparr>node_id = 2, node_type = NODE_METHOD, node_name = ''A::b'',
               node_fullName = ''A::b'', node_edges = {#}\<rparr>"

definition two_graphs :: world where
  "two_graphs =
     \<lparr>nodes = [10 \<mapsto> class_A, 20 \<mapsto> method_b, 11 \<mapsto> class_A, 21 \<mapsto> method_b],
      edges = Map.empty, history = []\<rparr>"

definition member_edge :: Edge where
  "member_edge = \<lparr>m_id = 7, m_components = [], m_type = EDGE_MEMBER, m_from = 10, m_to = 20\<rparr>"

definition with_member :: world where
  "with_member =
     \<lparr>nodes = [10 \<mapsto> class_A\<lparr>node_edges := {#100#}\<rparr>, 20 \<mapsto> method_b\<lparr>node_edges := {#100#}\<rparr>,
               11 \<mapsto> class_A, 21 \<mapsto> method_b],
      edges = [100 \<mapsto> member_edge],
      history = [Call_addEdge 10 100, Call_addEdge 20 100]\<rparr>"

text \<open>
  \<open>two_graphs\<close> after three edges have been constructed: the Member edge at 100, an
  Aggregation edge from \<open>A\<close> to \<open>A::b\<close> at 102 and a Call edge from \<open>A::b\<close> to itself
  at 103.
\<close>

definition aggregation_edge :: Edge where
  "aggregation_edge =
     \<lparr>m_id = 8, m_components = [], m_type = EDGE_AGGREGATION, m_from = 10, m_to = 20\<rparr>"

definition call_edge :: Edge where
  "call_edge = \<lparr>m_id = 9, m_components = [], m_type = EDGE_CALL, m_from = 20, m_to = 20\<rparr>"

definition with_three_edges :: world where
  "with_three_edges =
     \<lparr>nodes = [10 \<mapsto> class_A\<lparr>node_edges := {#100, 102#}\<rparr>,
               20 \<mapsto> method_b\<lparr>node_edges := {#100, 102, 103#}\<rparr>,
               11 \<mapsto> class_A, 21 \<mapsto> method_b],
      edges = [100 \<mapsto> member_edge, 102 \<mapsto> aggregation_edge, 103 \<mapsto> call_edge],
      history = [Call_addEdge 10 100, Call_addEdge 20 100, Call_addEdge 10 102,
                 Call_addEdge 20 102, Call_addEdge 20 103, Call_addEdge 20 103]\<rparr>"

section \<open>Properties\<close>

subsection \<open>Bit flags and category masks\<close>

lemma set_all_NodeTypes: "set all_NodeTypes = UNIV"
proof -
  have "k \<in> set all_NodeTypes" for k
    by (cases k) (simp_all add: all_NodeTypes_def)
  then show ?thesis by blast
qed

lemma bit_flags_iff:
  "bit_flags D \<longleftrightarrow>
     (\<forall>k. enumValue D k \<noteq> 0) \<and> (\<forall>k k'. k \<noteq> k' \<longrightarrow> enumValue D k AND enumValue D k' = 0)"
  unfolding bit_flags_def list_all_iff set_all_NodeTypes by blast

lemma Node_isType_flag:
  assumes "bit_flags D"
  shows "Node_isType D n (enumValue D k) \<longleftrightarrow> node_type n = k"
proof (cases "node_type n = k")
  case True
  with assms show ?thesis by (simp add: Node_isType_def bit_flags_iff)
next
  case False
  with assms show ?thesis by (simp add: Node_isType_def bit_flags_iff)
qed

lemma Node_isType_OR:
  "Node_isType D n (a OR b) \<longleftrightarrow> Node_isType D n a \<or> Node_isType D n b"
  by (simp add: Node_isType_def bit.conj_disj_distrib or_eq_0_iff)

lemma checkType_switch_table:
  assumes "bit_flags D"
  shows "checkType_switch D type nfrom nto =
           schema_table_member_open type (node_type nfrom) (node_type nto)"
  by (cases type)
     (auto simp: checkType_switch_def schema_table_member_open_def schema_table_def Let_def
        Node_isType_OR Node_isType_flag [OF assms]
        complexType_def typeLike_def variableLike_def functionLike_def)

lemma bit_flags_in_order: "bit_flags flags_in_order"
  by (simp add: bit_flags_def all_NodeTypes_def flags_in_order_def)

subsection \<open>Labels of the edge kinds\<close>

text \<open>
  C9: \<open>getTypeString\<close> is total. For each of the fifteen enumerated edge kinds it returns
  the fixed label of that kind, and for a value that is none of the fifteen it returns the
  empty string.
\<close>

theorem getTypeString_labels:
  "getTypeString EDGE_MEMBER = ''child'' \<and>
   getTypeString EDGE_TYPE_OF = ''type_use'' \<and>
   getTypeString EDGE_RETURN_TYPE_OF = ''return_type'' \<and>
   getTypeString EDGE_PARAMETER_TYPE_OF = ''parameter_type'' \<and>
   getTypeString EDGE_TYPE_USAGE = ''type_usage'' \<and>
   getTypeString EDGE_INHERITANCE = ''inheritance'' \<and>
   getTypeString EDGE_OVERRIDE = ''override'' \<and>
   getTypeString EDGE_CALL = ''call'' \<and>
   getTypeString EDGE_USAGE = ''usage'' \<and>
   getTypeString EDGE_TYPEDEF_OF = ''typedef'' \<and>
   getTypeString EDGE_TEMPLATE_PARAMETER_OF = ''template parameter'' \<and>
   getTypeString EDGE_TEMPLATE_ARGUMENT_OF = ''template argument'' \<and>
   getTypeString EDGE_TEMPLATE_DEFAULT_ARGUMENT_OF = ''template default argument'' \<and>
   getTypeString EDGE_TEMPLATE_SPECIALIZATION_OF = ''template specialization'' \<and>
   getTypeString EDGE_AGGREGATION = ''aggregation'' \<and>
   (\<forall>v. getTypeString (EDGE_UNENUMERATED v) = '''')"
  by (simp add: getTypeString_def)

subsection \<open>The compatibility check against the schema\<close>

text \<open>
  C1 (as amended): when the node kinds are bit flags, \<open>checkType\<close> on an edge with live
  endpoints returns, for every edge kind and every pair of endpoint kinds, whether the
  triple satisfies its row of the table of section 4.2, where the Member row requires the
  from kind to be in typeLike or Namespace, rejects a Namespace to node unless the from
  kind is Undefined or Namespace, rejects an Enum from node unless the to kind is Field,
  and puts no other requirement on the to kind.
\<close>

theorem checkType_schema:
  assumes "bit_flags D"
    and "edges s this = Some e"
    and "nodes s (m_from e) = Some nfrom"
    and "nodes s (m_to e) = Some nto"
  shows "\<exists>s'. checkType D this s =
           Some (schema_table_member_open (m_type e) (node_type nfrom) (node_type nto), s')"
  using assms(2-4) by (simp add: checkType_def checkType_switch_table [OF assms(1)])

theorem checkType_schema_witness:
  "bit_flags flags_in_order \<and> edges with_member 100 = Some member_edge \<and>
   nodes with_member (m_from member_edge) = Some (class_A\<lparr>node_edges := {#100#}\<rparr>) \<and>
   nodes with_member (m_to member_edge) = Some (method_b\<lparr>node_edges := {#100#}\<rparr>) \<and>
   (\<exists>s'. checkType flags_in_order 100 with_member = Some (True, s'))"
  using checkType_schema [of flags_in_order with_member 100 member_edge
      "class_A\<lparr>node_edges := {#100#}\<rparr>" "method_b\<lparr>node_edges := {#100#}\<rparr>"]
    bit_flags_in_order
  by (simp add: with_member_def member_edge_def class_A_def method_b_def
      schema_table_member_open_def typeLike_def complexType_def)

text \<open>
  The Member row as the table writes it asks for a to kind in typeLike or Namespace. The
  check accepts the Member edge from the class \<open>A\<close> to its method \<open>A::b\<close>, which that
  row excludes.
\<close>

theorem checkType_member_to_counterexample:
  "checkType flags_in_order 100 with_member = Some (True, with_member) \<and>
   \<not> schema_table EDGE_MEMBER NODE_CLASS NODE_METHOD"
  by (simp add: checkType_def checkType_switch_def with_member_def member_edge_def class_A_def
      method_b_def flags_in_order_def Node_isType_def Let_def schema_table_def typeLike_def
      complexType_def)

subsection \<open>What the constructors and the destructor do to the store\<close>

lemma checkType_switch_node_edges:
  "checkType_switch D type (nfrom\<lparr>node_edges := X\<rparr>) nto = checkType_switch D type nfrom nto"
  "checkType_switch D type nfrom (nto\<lparr>node_edges := Y\<rparr>) = checkType_switch D type nfrom nto"
  by (cases type; simp add: checkType_switch_def Node_isType_def)+

lemma checkType_live:
  assumes "edges s this = Some e"
    and "nodes s (m_from e) = Some nfrom"
    and "nodes s (m_to e) = Some nto"
  shows "checkType D this s =
           Some (checkType_switch D (m_type e) nfrom nto,
                 if checkType_switch D (m_type e) nfrom nto then s
                 else LOG_ERROR (checkType_report D (m_type e) nfrom nto) s)"
  using assms by (simp add: checkType_def checkType_report_def)


lemma in_addEdge_to: "e' \<in># addEdge_to D e held \<longleftrightarrow> e' = e \<or> e' \<in># held"
  by (auto simp: addEdge_to_def)




lemma with_edge_lookup:
  "with_edge D this nfrom nto ns r =
     map_option
       (\<lambda>n. n\<lparr>node_edges :=
               (if r = nto
                then addEdge_to D this
                       (if r = nfrom then addEdge_to D this (node_edges n) else node_edges n)
                else if r = nfrom then addEdge_to D this (node_edges n) else node_edges n)\<rparr>)
       (ns r)"
  by (simp add: with_edge_def Let_def)


lemma with_edge_live:
  assumes "ns r = Some n"
  shows "\<exists>held. with_edge D this nfrom nto ns r = Some (n\<lparr>node_edges := held\<rparr>)"
proof -
  have "with_edge D this nfrom nto ns r =
          Some (n\<lparr>node_edges :=
               (if r = nto
                then addEdge_to D this
                       (if r = nfrom then addEdge_to D this (node_edges n) else node_edges n)
                else if r = nfrom then addEdge_to D this (node_edges n) else node_edges n)\<rparr>)"
    by (simp only: with_edge_lookup assms option.map)
  then show ?thesis by (rule exI)
qed

lemma Node_addEdge_twice:
  assumes "nodes s nfrom = Some f" and "nodes s nto = Some t"
  shows "\<exists>s1. Node_addEdge D nfrom this s = Some s1 \<and>
           Node_addEdge D nto this s1 =
             Some (s\<lparr>nodes := with_edge D this nfrom nto (nodes s),
                     history := history s @ [Call_addEdge nfrom this, Call_addEdge nto this]\<rparr>)"
proof -
  define f1 where "f1 = f\<lparr>node_edges := addEdge_to D this (node_edges f)\<rparr>"
  define s1 where "s1 = s\<lparr>nodes := (nodes s)(nfrom \<mapsto> f1),
                           history := history s @ [Call_addEdge nfrom this]\<rparr>"
  define t1 where "t1 = (if nto = nfrom then f1 else t)"
  have a1: "Node_addEdge D nfrom this s = Some s1"
    using assms(1) by (simp add: Node_addEdge_def s1_def f1_def)
  have t1: "nodes s1 nto = Some t1"
    using assms(2) by (simp add: s1_def t1_def)
  have "(nodes s1)(nto \<mapsto> t1\<lparr>node_edges := addEdge_to D this (node_edges t1)\<rparr>) =
          with_edge D this nfrom nto (nodes s)"
  proof (rule ext)
    fix r
    show "((nodes s1)(nto \<mapsto> t1\<lparr>node_edges := addEdge_to D this (node_edges t1)\<rparr>)) r =
            with_edge D this nfrom nto (nodes s) r"
      using assms by (cases "nodes s r") (auto simp: with_edge_lookup s1_def t1_def f1_def)
  qed
  then have "Node_addEdge D nto this s1 =
             Some (s\<lparr>nodes := with_edge D this nfrom nto (nodes s),
                     history := history s @ [Call_addEdge nfrom this, Call_addEdge nto this]\<rparr>)"
    using t1 by (simp add: Node_addEdge_def) (simp add: s1_def)
  with a1 show ?thesis by blast
qed


lemma checkType_registered:
  assumes "nodes s nfrom = Some f" and "nodes s nto = Some t"
    and "edges s this = Some e" and "m_from e = nfrom" and "m_to e = nto"
    and "nodes s' = with_edge D' this nfrom nto (nodes s)" and "edges s' = edges s"
  shows "checkType D this s' =
           Some (checkType_switch D (m_type e) f t,
                 if checkType_switch D (m_type e) f t then s'
                 else LOG_ERROR (checkType_report D (m_type e) f t) s')"
proof -
  obtain held_f held_t where
    "with_edge D' this nfrom nto (nodes s) nfrom = Some (f\<lparr>node_edges := held_f\<rparr>)"
    "with_edge D' this nfrom nto (nodes s) nto = Some (t\<lparr>node_edges := held_t\<rparr>)"
    using with_edge_live [where ns = "nodes s" and r = nfrom, OF assms(1)]
      with_edge_live [where ns = "nodes s" and r = nto, OF assms(2)]
    by blast
  then have live: "edges s' this = Some e"
    "nodes s' (m_from e) = Some (f\<lparr>node_edges := held_f\<rparr>)"
    "nodes s' (m_to e) = Some (t\<lparr>node_edges := held_t\<rparr>)"
    using assms by simp_all
  show ?thesis
    unfolding checkType_live [OF live]
    by (simp add: checkType_switch_node_edges checkType_report_def)
qed

lemma Edge_new_effect:
  assumes "nodes s nfrom = Some f" and "nodes s nto = Some t"
  shows "Edge_new D this tid type nfrom nto s =
           Some \<lparr>nodes = with_edge D this nfrom nto (nodes s),
                 edges = (edges s)(this \<mapsto> \<lparr>m_id = tid, m_components = [], m_type = type,
                                              m_from = nfrom, m_to = nto\<rparr>),
                 history = history s @ [Call_addEdge nfrom this, Call_addEdge nto this]
                   @ (if checkType_switch D type f t then []
                      else [Call_LOG_ERROR (checkType_report D type f t)])\<rparr>"
proof -
  define e where "e = \<lparr>m_id = tid, m_components = [], m_type = type, m_from = nfrom, m_to = nto\<rparr>"
  define s0 where "s0 = s\<lparr>edges := (edges s)(this \<mapsto> e)\<rparr>"
  define s2 where "s2 = s0\<lparr>nodes := with_edge D this nfrom nto (nodes s0),
                     history := history s0 @ [Call_addEdge nfrom this, Call_addEdge nto this]\<rparr>"
  have n0: "nodes s0 nfrom = Some f" "nodes s0 nto = Some t"
    using assms by (simp_all add: s0_def)
  obtain s1 where a: "Node_addEdge D nfrom this s0 = Some s1"
    "Node_addEdge D nto this s1 = Some s2"
    using Node_addEdge_twice [OF n0] unfolding s2_def by blast
  have c: "checkType D this s2 =
           Some (checkType_switch D (m_type e) f t,
                 if checkType_switch D (m_type e) f t then s2
                 else LOG_ERROR (checkType_report D (m_type e) f t) s2)"
    by (rule checkType_registered [OF n0, of this e _ D]) (simp_all add: s0_def s2_def e_def)
  have "Edge_new D this tid type nfrom nto s = map_option snd (checkType D this s2)"
    unfolding Edge_new_def Let_def e_def [symmetric] s0_def [symmetric] using a by simp
  then show ?thesis
    unfolding c by (simp add: s2_def s0_def e_def LOG_ERROR_def)
qed

lemma Edge_copy_condition_registered:
  assumes "nodes s nfrom = Some f" and "nodes s nto = Some t"
    and "nodes s (m_from other) = Some f'" and "nodes s (m_to other) = Some t'"
    and "nodes s' = with_edge D this nfrom nto (nodes s)"
  shows "Edge_copy_condition other nfrom nto s' = Some (not_plain_copies other nfrom nto f t f' t')"
  using assms by (auto simp: Edge_copy_condition_def not_plain_copies_def with_edge_lookup)

lemma Edge_copy_effect:
  assumes "nodes s nfrom = Some f" and "nodes s nto = Some t"
    and "nodes s (m_from other) = Some f'" and "nodes s (m_to other) = Some t'"
  shows "Edge_copy D this other nfrom nto s =
           Some \<lparr>nodes = with_edge D this nfrom nto (nodes s),
                 edges = (edges s)(this \<mapsto> \<lparr>m_id = m_id other,
                            m_components = m_components other, m_type = m_type other,
                            m_from = nfrom, m_to = nto\<rparr>),
                 history = history s @ [Call_addEdge nfrom this, Call_addEdge nto this]
                   @ (if not_plain_copies other nfrom nto f t f' t'
                      then [Call_LOG_ERROR ''Nodes are not plain copies.''] else [])
                   @ (if checkType_switch D (m_type other) f t then []
                      else [Call_LOG_ERROR (checkType_report D (m_type other) f t)])\<rparr>"
proof -
  define e where "e = \<lparr>m_id = m_id other, m_components = m_components other,
                        m_type = m_type other, m_from = nfrom, m_to = nto\<rparr>"
  define s0 where "s0 = s\<lparr>edges := (edges s)(this \<mapsto> e)\<rparr>"
  define s2 where "s2 = s0\<lparr>nodes := with_edge D this nfrom nto (nodes s0),
                     history := history s0 @ [Call_addEdge nfrom this, Call_addEdge nto this]\<rparr>"
  define s3 where "s3 = (if not_plain_copies other nfrom nto f t f' t'
                         then LOG_ERROR ''Nodes are not plain copies.'' s2 else s2)"
  have n0: "nodes s0 nfrom = Some f" "nodes s0 nto = Some t"
    "nodes s0 (m_from other) = Some f'" "nodes s0 (m_to other) = Some t'"
    using assms by (simp_all add: s0_def)
  obtain s1 where a: "Node_addEdge D nfrom this s0 = Some s1"
    "Node_addEdge D nto this s1 = Some s2"
    using Node_addEdge_twice [OF n0(1,2)] unfolding s2_def by blast
  have p: "Edge_copy_condition other nfrom nto s2 =
             Some (not_plain_copies other nfrom nto f t f' t')"
    by (rule Edge_copy_condition_registered [OF n0, of _ D this]) (simp add: s2_def)
  have c: "checkType D this s3 =
           Some (checkType_switch D (m_type e) f t,
                 if checkType_switch D (m_type e) f t then s3
                 else LOG_ERROR (checkType_report D (m_type e) f t) s3)"
    by (rule checkType_registered [OF n0(1,2), of this e _ D])
       (simp_all add: s0_def s2_def s3_def e_def LOG_ERROR_def)
  have "Edge_copy D this other nfrom nto s = map_option snd (checkType D this s3)"
    unfolding Edge_copy_def Let_def e_def [symmetric] s0_def [symmetric] using a p
    by (simp add: s3_def)
  then show ?thesis
    unfolding c by (simp add: s3_def s2_def s0_def e_def LOG_ERROR_def)
qed


lemma diagnostics_append: "diagnostics (xs @ ys) = diagnostics xs @ diagnostics ys"
  by (induction xs rule: diagnostics.induct) simp_all

text \<open>
  The incident edges after registration. The edge is among them at both endpoints in any
  case. When the new edge was held by neither endpoint before, and the endpoints are two
  nodes or the nodes keep their edges unique, each endpoint holds one more edge, the new
  one, and no other node has changed.
\<close>

lemma incidentEdges_with_edge:
  assumes "nodes s' = with_edge D this nfrom nto (nodes s)"
    and "nodes s nfrom = Some f" and "nodes s nto = Some t"
  shows "this \<in> incidentEdges s' nfrom" and "this \<in> incidentEdges s' nto"
  using assms by (auto simp: incidentEdges_def incidence_def with_edge_lookup in_addEdge_to)



subsection \<open>Construction\<close>

text \<open>
  C2: for every edge kind and every pair of live endpoint nodes, the constructor
  \<open>Edge(type, from, to)\<close> returns, the new edge exists, and it has called \<open>addEdge\<close> on
  the from node first and on the to node second, so that the edge is in both incidence
  sets, whether the compatibility check passes or not. When the check fails exactly one
  diagnostic has been reported, and none when it passes.
\<close>

theorem Edge_new_registers:
  assumes "nodes s nfrom = Some f" and "nodes s nto = Some t"
  shows "\<exists>s'. Edge_new D this tid type nfrom nto s = Some s' \<and>
           edges s' this = Some \<lparr>m_id = tid, m_components = [], m_type = type,
                                  m_from = nfrom, m_to = nto\<rparr> \<and>
           this \<in> incidentEdges s' nfrom \<and> this \<in> incidentEdges s' nto \<and>
           calls_since s s' =
             Call_addEdge nfrom this # Call_addEdge nto this #
               (if checkType_switch D type f t then []
                else [Call_LOG_ERROR (checkType_report D type f t)]) \<and>
           length (diagnostics (calls_since s s')) =
             (if checkType_switch D type f t then 0 else 1)"
  using incidentEdges_with_edge [OF _ assms, of _ D this]
  by (simp add: Edge_new_effect [OF assms] calls_since_def)

theorem Edge_new_registers_witness:
  "nodes two_graphs 10 = Some class_A \<and> nodes two_graphs 20 = Some method_b \<and>
   (\<exists>s'. Edge_new flags_in_order 100 7 EDGE_INHERITANCE 10 20 two_graphs = Some s' \<and>
      100 \<in> incidentEdges s' 10 \<and> 100 \<in> incidentEdges s' 20 \<and>
      calls_since two_graphs s' =
        [Call_addEdge 10 100, Call_addEdge 20 100,
         Call_LOG_ERROR (''Edge inheritance can'' @ [CHR 0x27]
           @ ''t go from Node class to Node method'')])"
proof -
  have n: "nodes two_graphs 10 = Some class_A" "nodes two_graphs 20 = Some method_b"
    by (simp_all add: two_graphs_def)
  have "\<not> checkType_switch flags_in_order EDGE_INHERITANCE class_A method_b"
    by (simp add: checkType_switch_def Node_isType_def flags_in_order_def class_A_def
        method_b_def)
  moreover have "checkType_report flags_in_order EDGE_INHERITANCE class_A method_b =
      ''Edge inheritance can'' @ [CHR 0x27] @ ''t go from Node class to Node method''"
    by (simp add: checkType_report_def getTypeString_def flags_in_order_def class_A_def
        method_b_def)
  ultimately show ?thesis
    using Edge_new_registers [OF n, of flags_in_order 100 7 EDGE_INHERITANCE] n by auto
qed

text \<open>
  C6: for every source edge and pair of live replacement nodes, the cloning constructor
  \<open>Edge(other, from, to)\<close> returns; the clone has the kind of the source edge and is in
  the incidence sets of both replacement nodes; and the report that the nodes are not
  plain copies is among its diagnostics if and only if the new from node is the same
  object as the original from node, or the new to node is the same object as the original
  to node, or the ids of the from nodes differ, or the ids of the to nodes differ.
\<close>

theorem Edge_copy_plain_copies:
  assumes "nodes s nfrom = Some f" and "nodes s nto = Some t"
    and "nodes s (m_from other) = Some f'" and "nodes s (m_to other) = Some t'"
  shows "\<exists>s' e. Edge_copy D this other nfrom nto s = Some s' \<and>
           edges s' this = Some e \<and>
           m_type e = m_type other \<and> m_from e = nfrom \<and> m_to e = nto \<and>
           this \<in> incidentEdges s' nfrom \<and> this \<in> incidentEdges s' nto \<and>
           (''Nodes are not plain copies.'' \<in> set (diagnostics (calls_since s s'))) =
             (nfrom = m_from other \<or> nto = m_to other \<or>
              node_id f \<noteq> node_id f' \<or> node_id t \<noteq> node_id t')"
  using incidentEdges_with_edge [OF _ assms(1,2), of _ D this]
  by (simp add: Edge_copy_effect [OF assms] calls_since_def
      diagnostics_append checkType_report_def not_plain_copies_def)

theorem Edge_copy_plain_copies_witness:
  "nodes with_member 11 = Some class_A \<and> nodes with_member 21 = Some method_b \<and>
   nodes with_member (m_from member_edge) = Some (class_A\<lparr>node_edges := {#100#}\<rparr>) \<and>
   nodes with_member (m_to member_edge) = Some (method_b\<lparr>node_edges := {#100#}\<rparr>) \<and>
   (\<exists>s'. Edge_copy flags_in_order 101 member_edge 11 21 with_member = Some s' \<and>
      101 \<in> incidentEdges s' 11 \<and> 101 \<in> incidentEdges s' 21 \<and>
      ''Nodes are not plain copies.'' \<notin> set (diagnostics (calls_since with_member s')))"
  using Edge_copy_plain_copies [of with_member 11 class_A 21 method_b member_edge
      "class_A\<lparr>node_edges := {#100#}\<rparr>" "method_b\<lparr>node_edges := {#100#}\<rparr>" flags_in_order 101]
  by (auto simp: with_member_def member_edge_def class_A_def method_b_def)

subsection \<open>The incidence sets\<close>




text \<open>
  The last hypothesis of the constructors' part is needed: with nodes that do not keep
  their edges unique, the node of an edge from a node to itself holds the edge twice after
  the two calls of \<open>addEdge\<close>.
\<close>

lemma self_loop_held_twice:
  "\<exists>s'. Edge_new (flags_in_order\<lparr>uniqueEdges := False\<rparr>) 103 9 EDGE_CALL 20 20 with_member
           = Some s' \<and>
         count (incidence s' 20) 103 = 2"
proof -
  have n: "nodes with_member 20 = Some (method_b\<lparr>node_edges := {#100#}\<rparr>)"
    by (simp add: with_member_def)
  show ?thesis
    unfolding Edge_new_effect [OF n n]
    by (simp add: incidence_def with_edge_lookup addEdge_to_def with_member_def)
qed

subsection \<open>Attaching components\<close>

lemma getComponentAccess_append:
  "getComponentAccess (cs @ ds) =
     (case getComponentAccess cs of None \<Rightarrow> getComponentAccess ds | Some a \<Rightarrow> Some a)"
  by (induction cs rule: getComponentAccess.induct) simp_all

lemma getComponentAggregation_append:
  "getComponentAggregation (cs @ ds) =
     (case getComponentAggregation cs of None \<Rightarrow> getComponentAggregation ds | Some n \<Rightarrow> Some n)"
  by (induction cs rule: getComponentAggregation.induct) simp_all

lemma addComponentAggregation_effect:
  assumes "edges s this = Some e"
  shows "addComponentAggregation this c s =
           Some (if getComponentAggregation (m_components e) = None \<and> m_type e = EDGE_AGGREGATION
                 then s\<lparr>edges := (edges s)(this \<mapsto> addComponent (ComponentAggregation c) e)\<rparr>
                 else if getComponentAggregation (m_components e) \<noteq> None
                 then LOG_ERROR ''TokenComponentAggregation has been set before!'' s
                 else LOG_ERROR (''TokenComponentAggregation can'' @ [CHR 0x27]
                        @ ''t be set on edge of type: '' @ getTypeString (m_type e)) s)"
  using assms by (simp add: addComponentAggregation_def)

lemma addComponentAccess_effect:
  assumes "edges s this = Some e"
  shows "addComponentAccess this c s =
           Some (if getComponentAccess (m_components e) = None \<and>
                    (m_type e = EDGE_MEMBER \<or> m_type e = EDGE_INHERITANCE)
                 then s\<lparr>edges := (edges s)(this \<mapsto> addComponent (ComponentAccess c) e)\<rparr>
                 else if getComponentAccess (m_components e) \<noteq> None
                 then LOG_ERROR ''TokenComponentAccess has been set before!'' s
                 else LOG_ERROR (''TokenComponentAccess can'' @ [CHR 0x27]
                        @ ''t be set on edge of type: '' @ getTypeString (m_type e)) s)"
  using assms by (simp add: addComponentAccess_def)

text \<open>
  C4: on a live edge \<open>addComponentAggregation\<close> returns. If the edge has no Aggregation
  component and its kind is Aggregation, the given component is attached, it is the
  Aggregation component of the edge afterwards, and nothing is reported; otherwise exactly
  one diagnostic is reported and the edge is unchanged. No other edge and no node changes.
  After a successful attachment a second attempt is rejected: the edge stays as the first
  attachment left it, with the first component, and one diagnostic is reported.
\<close>

theorem addComponentAggregation_once:
  assumes "edges s this = Some e"
  shows "\<exists>s' e'. addComponentAggregation this c s = Some s' \<and>
           edges s' = (edges s)(this \<mapsto> e') \<and> nodes s' = nodes s \<and>
           (if getComponentAggregation (m_components e) = None \<and> m_type e = EDGE_AGGREGATION
            then e' = e\<lparr>m_components := m_components e @ [ComponentAggregation c]\<rparr> \<and>
                 getComponentAggregation (m_components e') = Some c \<and>
                 calls_since s s' = []
            else e' = e \<and> length (diagnostics (calls_since s s')) = 1) \<and>
           (if getComponentAggregation (m_components e) = None \<and> m_type e = EDGE_AGGREGATION
            then \<exists>s''. addComponentAggregation this c2 s' = Some s'' \<and>
                   edges s'' = edges s' \<and> edges s'' this = Some e' \<and> nodes s'' = nodes s' \<and>
                   length (diagnostics (calls_since s' s'')) = 1
            else True)"
proof (cases "getComponentAggregation (m_components e) = None \<and> m_type e = EDGE_AGGREGATION")
  case True
  define e' where "e' = e\<lparr>m_components := m_components e @ [ComponentAggregation c]\<rparr>"
  define s' where "s' = s\<lparr>edges := (edges s)(this \<mapsto> e')\<rparr>"
  have 1: "addComponentAggregation this c s = Some s'"
    using True by (simp add: addComponentAggregation_effect [OF assms] s'_def e'_def
        addComponent_def)
  have 2: "getComponentAggregation (m_components e') = Some c"
    using True by (simp add: e'_def getComponentAggregation_append)
  have "edges s' this = Some e'" by (simp add: s'_def)
  from addComponentAggregation_effect [OF this, of c2] 2
  have 3: "addComponentAggregation this c2 s' =
             Some (LOG_ERROR ''TokenComponentAggregation has been set before!'' s')"
    by simp
  show ?thesis
    using True 1 2 3 by (simp add: s'_def e'_def calls_since_def LOG_ERROR_def)
next
  case False
  have "(edges s)(this \<mapsto> e) = edges s"
    using assms by (rule map_upd_triv)
  with False show ?thesis
    by (auto simp: addComponentAggregation_effect [OF assms] calls_since_def LOG_ERROR_def)
qed

theorem addComponentAggregation_once_witness:
  "edges with_three_edges 102 = Some aggregation_edge \<and>
   (\<exists>s'. addComponentAggregation 102 5 with_three_edges = Some s' \<and>
      edges s' = (edges with_three_edges)(102 \<mapsto>
         aggregation_edge\<lparr>m_components := [ComponentAggregation 5]\<rparr>) \<and>
      calls_since with_three_edges s' = [] \<and>
      (\<exists>s''. addComponentAggregation 102 6 s' = Some s'' \<and> edges s'' = edges s' \<and>
         length (diagnostics (calls_since s' s'')) = 1))"
proof -
  have e: "edges with_three_edges 102 = Some aggregation_edge"
    by (simp add: with_three_edges_def)
  have c: "getComponentAggregation (m_components aggregation_edge) = None \<and>
           m_type aggregation_edge = EDGE_AGGREGATION"
    "m_components aggregation_edge = []"
    by (simp_all add: aggregation_edge_def)
  from addComponentAggregation_once [OF e, of 5 6] e c show ?thesis
    by auto
qed

text \<open>
  C5: on a live edge \<open>addComponentAccess\<close> returns. If the edge has no Access component
  and its kind is Member or Inheritance, the given component is attached, it is the Access
  component of the edge afterwards, and nothing is reported; otherwise (so on every Call
  edge) exactly one diagnostic is reported and the edge is unchanged. No other edge and no
  node changes.
\<close>

theorem addComponentAccess_once:
  assumes "edges s this = Some e"
  shows "\<exists>s' e'. addComponentAccess this c s = Some s' \<and>
           edges s' = (edges s)(this \<mapsto> e') \<and> nodes s' = nodes s \<and>
           (if getComponentAccess (m_components e) = None \<and>
               (m_type e = EDGE_MEMBER \<or> m_type e = EDGE_INHERITANCE)
            then e' = e\<lparr>m_components := m_components e @ [ComponentAccess c]\<rparr> \<and>
                 getComponentAccess (m_components e') = Some c \<and>
                 calls_since s s' = []
            else e' = e \<and> length (diagnostics (calls_since s s')) = 1) \<and>
           (if m_type e = EDGE_CALL
            then edges s' = edges s \<and> length (diagnostics (calls_since s s')) = 1
            else True)"
proof (cases "getComponentAccess (m_components e) = None \<and>
               (m_type e = EDGE_MEMBER \<or> m_type e = EDGE_INHERITANCE)")
  case True
  then have "m_type e \<noteq> EDGE_CALL" by auto
  with True show ?thesis
    by (simp add: addComponentAccess_effect [OF assms] calls_since_def addComponent_def
        getComponentAccess_append)
next
  case False
  have "(edges s)(this \<mapsto> e) = edges s"
    using assms by (rule map_upd_triv)
  with False show ?thesis
    by (auto simp: addComponentAccess_effect [OF assms] calls_since_def LOG_ERROR_def)
qed

theorem addComponentAccess_once_witness:
  "edges with_three_edges 100 = Some member_edge \<and>
   edges with_three_edges 103 = Some call_edge \<and>
   (\<exists>s'. addComponentAccess 100 ACCESS_PUBLIC with_three_edges = Some s' \<and>
      edges s' = (edges with_three_edges)(100 \<mapsto>
         member_edge\<lparr>m_components := [ComponentAccess ACCESS_PUBLIC]\<rparr>) \<and>
      calls_since with_three_edges s' = []) \<and>
   (\<exists>s'. addComponentAccess 103 ACCESS_PUBLIC with_three_edges = Some s' \<and>
      edges s' = edges with_three_edges \<and>
      length (diagnostics (calls_since with_three_edges s')) = 1)"
proof -
  have e: "edges with_three_edges 100 = Some member_edge"
    "edges with_three_edges 103 = Some call_edge"
    by (simp_all add: with_three_edges_def)
  have c: "getComponentAccess (m_components member_edge) = None"
    "m_type member_edge = EDGE_MEMBER" "m_components member_edge = []"
    "m_type call_edge = EDGE_CALL"
    by (simp_all add: member_edge_def call_edge_def)
  from addComponentAccess_once [OF e(1), of ACCESS_PUBLIC]
    addComponentAccess_once [OF e(2), of ACCESS_PUBLIC] e c
  show ?thesis by auto
qed

lemma attach_effect:
  assumes "edges s this = Some e"
    and "getComponentAccess (m_components e) = None \<or>
         m_type e = EDGE_MEMBER \<or> m_type e = EDGE_INHERITANCE"
    and "getComponentAggregation (m_components e) = None \<or> m_type e = EDGE_AGGREGATION"
  shows "\<exists>s' e'. attach this a s = Some s' \<and> edges s' this = Some e' \<and>
           m_type e' = m_type e \<and>
           (getComponentAccess (m_components e') = None \<or>
            m_type e' = EDGE_MEMBER \<or> m_type e' = EDGE_INHERITANCE) \<and>
           (getComponentAggregation (m_components e') = None \<or> m_type e' = EDGE_AGGREGATION)"
proof (cases a)
  case (AttachAccess c)
  with assms(2,3) show ?thesis
    by (auto simp: addComponentAccess_effect [OF assms(1)] LOG_ERROR_def assms(1)
        addComponent_def getComponentAccess_append getComponentAggregation_append)
next
  case (AttachAggregation n)
  with assms(2,3) show ?thesis
    by (auto simp: addComponentAggregation_effect [OF assms(1)] LOG_ERROR_def assms(1)
        addComponent_def getComponentAccess_append getComponentAggregation_append)
qed

lemma attach_all_effect:
  assumes "edges s this = Some e"
    and "getComponentAccess (m_components e) = None \<or>
         m_type e = EDGE_MEMBER \<or> m_type e = EDGE_INHERITANCE"
    and "getComponentAggregation (m_components e) = None \<or> m_type e = EDGE_AGGREGATION"
  shows "\<exists>s' e'. attach_all this as s = Some s' \<and> edges s' this = Some e' \<and>
           m_type e' = m_type e \<and>
           (getComponentAccess (m_components e') = None \<or>
            m_type e' = EDGE_MEMBER \<or> m_type e' = EDGE_INHERITANCE) \<and>
           (getComponentAggregation (m_components e') = None \<or> m_type e' = EDGE_AGGREGATION)"
  using assms
proof (induction as arbitrary: s e)
  case Nil
  then show ?case by simp
next
  case (Cons a as)
  from attach_effect [OF Cons.prems, of a]
  obtain s1 e1 where 1: "attach this a s = Some s1" "edges s1 this = Some e1"
    "m_type e1 = m_type e"
    "getComponentAccess (m_components e1) = None \<or>
       m_type e1 = EDGE_MEMBER \<or> m_type e1 = EDGE_INHERITANCE"
    "getComponentAggregation (m_components e1) = None \<or> m_type e1 = EDGE_AGGREGATION"
    by blast
  from Cons.IH [OF 1(2,4,5)] 1(1,3) show ?case
    by auto
qed

text \<open>
  C10: take any edge kind, any two live nodes and any sequence of attachments. The
  constructor returns, every attachment of the sequence returns, and the edge that results
  has the kind it was constructed with, carries an Access component only if that kind is
  Member or Inheritance and an Aggregation component only if that kind is Aggregation; so
  it never carries both.
\<close>

theorem components_mutually_exclusive:
  assumes "nodes s nfrom = Some f" and "nodes s nto = Some t"
  shows "\<exists>s1 s2 e. Edge_new D this tid type nfrom nto s = Some s1 \<and>
           attach_all this as s1 = Some s2 \<and> edges s2 this = Some e \<and> m_type e = type \<and>
           (getComponentAccess (m_components e) = None \<or>
            type = EDGE_MEMBER \<or> type = EDGE_INHERITANCE) \<and>
           (getComponentAggregation (m_components e) = None \<or> type = EDGE_AGGREGATION) \<and>
           (getComponentAccess (m_components e) = None \<or>
            getComponentAggregation (m_components e) = None)"
proof -
  define e0 where "e0 = \<lparr>m_id = tid, m_components = [], m_type = type,
                          m_from = nfrom, m_to = nto\<rparr>"
  obtain s1 where 1: "Edge_new D this tid type nfrom nto s = Some s1" "edges s1 this = Some e0"
    by (simp add: Edge_new_effect [OF assms] e0_def)
  have "\<exists>s' e'. attach_all this as s1 = Some s' \<and> edges s' this = Some e' \<and>
           m_type e' = m_type e0 \<and>
           (getComponentAccess (m_components e') = None \<or>
            m_type e' = EDGE_MEMBER \<or> m_type e' = EDGE_INHERITANCE) \<and>
           (getComponentAggregation (m_components e') = None \<or> m_type e' = EDGE_AGGREGATION)"
    by (rule attach_all_effect [OF 1(2)]) (simp_all add: e0_def)
  then obtain s2 e where 2: "attach_all this as s1 = Some s2" "edges s2 this = Some e"
    "m_type e = type"
    "getComponentAccess (m_components e) = None \<or>
       type = EDGE_MEMBER \<or> type = EDGE_INHERITANCE"
    "getComponentAggregation (m_components e) = None \<or> type = EDGE_AGGREGATION"
    by (auto simp: e0_def)
  from 2(4,5) have "getComponentAccess (m_components e) = None \<or>
            getComponentAggregation (m_components e) = None"
    by auto
  with 1(1) 2 show ?thesis by blast
qed

theorem components_mutually_exclusive_witness:
  "nodes two_graphs 10 = Some class_A \<and> nodes two_graphs 20 = Some method_b \<and>
   (\<exists>s1 s2 e. Edge_new flags_in_order 100 7 EDGE_MEMBER 10 20 two_graphs = Some s1 \<and>
      attach_all 100 [AttachAggregation 4, AttachAccess ACCESS_PRIVATE,
        AttachAccess ACCESS_PUBLIC] s1 = Some s2 \<and>
      edges s2 100 = Some e \<and> m_type e = EDGE_MEMBER \<and>
      getComponentAggregation (m_components e) = None)"
proof -
  have n: "nodes two_graphs 10 = Some class_A" "nodes two_graphs 20 = Some method_b"
    by (simp_all add: two_graphs_def)
  from components_mutually_exclusive [OF n, of flags_in_order 100 7 EDGE_MEMBER
      "[AttachAggregation 4, AttachAccess ACCESS_PRIVATE, AttachAccess ACCESS_PUBLIC]"] n
  show ?thesis by auto
qed

subsection \<open>Rendering\<close>

text \<open>
  C8: on an edge with live endpoints \<open>getName\<close> returns the label of the edge's kind, a
  colon, the full qualified name of the from node, the two characters \<open>->\<close> and the full
  qualified name of the to node, in this order.
\<close>

theorem getName_format:
  assumes "nodes s (m_from e) = Some nfrom" and "nodes s (m_to e) = Some nto"
  shows "getName s e =
           Some (concat [getTypeString (m_type e), [CHR '':''], node_fullName nfrom,
                         [CHR ''-'', CHR ''>''], node_fullName nto])"
  using assms by (simp add: getName_def)

theorem getName_format_witness:
  "nodes with_member (m_from member_edge) = Some (class_A\<lparr>node_edges := {#100#}\<rparr>) \<and>
   nodes with_member (m_to member_edge) = Some (method_b\<lparr>node_edges := {#100#}\<rparr>) \<and>
   getName with_member member_edge = Some ''child:A->A::b''"
  using getName_format [of with_member member_edge "class_A\<lparr>node_edges := {#100#}\<rparr>"
      "method_b\<lparr>node_edges := {#100#}\<rparr>"]
  by (simp add: with_member_def member_edge_def class_A_def method_b_def getTypeString_def)

text \<open>
  C7: on an edge with live endpoints \<open>getAsString\<close> returns the id in brackets, a space,
  the label of the kind, a colon and a space, the name of the from node in double quotes,
  \<open> -> \<close>, the name of the to node in double quotes; then a space and the access label
  if an Access component is attached; then a space and the aggregation count if an
  Aggregation component is attached. For a Member edge between nodes named \<open>A\<close> and
  \<open>A::b\<close> whose only component is a public Access component this is
  \<open>[<id>] child: "A" -> "A::b" public\<close>.
\<close>

theorem getAsString_format:
  assumes "nodes s (m_from e) = Some nfrom" and "nodes s (m_to e) = Some nto"
  shows "getAsString s e =
           Some (concat [''['', decimal (m_id e), ''] '', getTypeString (m_type e), '': '',
                         [CHR 0x22], node_name nfrom, [CHR 0x22], '' -> '',
                         [CHR 0x22], node_name nto, [CHR 0x22],
                         (case getComponentAccess (m_components e) of
                            None \<Rightarrow> [] | Some a \<Rightarrow> '' '' @ getAccessString a),
                         (case getComponentAggregation (m_components e) of
                            None \<Rightarrow> [] | Some n \<Rightarrow> '' '' @ decimal n)]) \<and>
         (if m_type e = EDGE_MEMBER \<and> node_name nfrom = ''A'' \<and> node_name nto = ''A::b'' \<and>
             m_components e = [ComponentAccess ACCESS_PUBLIC]
          then getAsString s e =
                 Some (concat [''['', decimal (m_id e), ''] child: '', [CHR 0x22], ''A'',
                               [CHR 0x22], '' -> '', [CHR 0x22], ''A::b'', [CHR 0x22],
                               '' public''])
          else True)"
  using assms
  by (simp add: getAsString_def Let_def getTypeString_def getAccessString_def
      split: option.splits)

lemma decimal_examples: "decimal 0 = ''0''" "decimal 7 = ''7''" "decimal 1024 = ''1024''"
  by code_simp+

theorem getAsString_format_witness:
  "nodes with_member (m_from member_edge) = Some (class_A\<lparr>node_edges := {#100#}\<rparr>) \<and>
   nodes with_member (m_to member_edge) = Some (method_b\<lparr>node_edges := {#100#}\<rparr>) \<and>
   getAsString with_member (member_edge\<lparr>m_components := [ComponentAccess ACCESS_PUBLIC]\<rparr>) =
     Some (''[7] child: '' @ [CHR 0x22] @ ''A'' @ [CHR 0x22] @ '' -> '' @ [CHR 0x22] @ ''A::b''
           @ [CHR 0x22] @ '' public'')"
  using getAsString_format [of with_member
      "member_edge\<lparr>m_components := [ComponentAccess ACCESS_PUBLIC]\<rparr>"
      "class_A\<lparr>node_edges := {#100#}\<rparr>" "method_b\<lparr>node_edges := {#100#}\<rparr>"]
  by (simp add: with_member_def member_edge_def class_A_def method_b_def decimal_examples
      getTypeString_def getAccessString_def)

end
